theory Spec2Isabelle
  imports Complex_Main "HOL-Library.Multiset"
begin

section \<open>Numbers and vectors\<close>

text \<open>
  A JavaScript number is embedded as a real whenever it is finite; rounding is not
  modelled. An operation whose JavaScript result is not a finite number is an explicit
  outcome of the model: a function in which that can happen returns
  \<open>anomaly + 'a\<close>, with \<open>Inl\<close> at the first such operation. The program
  itself never throws there; it keeps computing with Infinity, NaN or undefined.
\<close>

datatype anomaly =
    NonFiniteNumber       \<comment> \<open>a division by zero, or a fractional power of a negative base\<close>
  | UndefinedComponent    \<comment> \<open>a component of a body was assigned the value undefined\<close>

text \<open>
  Where the program keeps such a value in a field and goes on (the energy diagnostics, the
  flat state vector), the field holds a JavaScript value: a finite number, NaN or
  undefined. Arithmetic converts undefined to NaN, and NaN absorbs; \<open>===\<close> and
  \<open><=\<close> are false as soon as one side is NaN.
\<close>

datatype jsval = Undefined | Num real | NaN

fun js_plus :: "jsval \<Rightarrow> jsval \<Rightarrow> jsval" where
  "js_plus (Num a) (Num b) = Num (a + b)"
| "js_plus _ _ = NaN"

fun js_minus :: "jsval \<Rightarrow> jsval \<Rightarrow> jsval" where
  "js_minus (Num a) (Num b) = Num (a - b)"
| "js_minus _ _ = NaN"

fun js_times :: "jsval \<Rightarrow> jsval \<Rightarrow> jsval" where
  "js_times (Num a) (Num b) = Num (a * b)"
| "js_times _ _ = NaN"

text \<open>
  \<open>js_div\<close> is reached with a nonzero divisor only: each caller tests the divisor
  against 0 first.
\<close>

fun js_div :: "jsval \<Rightarrow> jsval \<Rightarrow> jsval" where
  "js_div (Num a) (Num b) = Num (a / b)"
| "js_div _ _ = NaN"

fun js_neg :: "jsval \<Rightarrow> jsval" where
  "js_neg (Num a) = Num (- a)"
| "js_neg _ = NaN"

fun js_abs :: "jsval \<Rightarrow> jsval" where
  "js_abs (Num a) = Num \<bar>a\<bar>"
| "js_abs _ = NaN"



record vec =
  vec_x :: real
  vec_y :: real
  vec_z :: real

definition zero_vec :: vec where
  "zero_vec = \<lparr>vec_x = 0, vec_y = 0, vec_z = 0\<rparr>"

subsection \<open>MathUtils: vector operations\<close>

text \<open>
  \<open>add\<close> declares two parameters. JavaScript drops every further argument of a
  call, so \<open>add(a, b, c)\<close> is \<open>add(a, b)\<close>.
\<close>

definition add :: "vec \<Rightarrow> vec \<Rightarrow> vec" where
  "add v1 v2 = \<lparr>vec_x = vec_x v1 + vec_x v2, vec_y = vec_y v1 + vec_y v2, vec_z = vec_z v1 + vec_z v2\<rparr>"

definition subtract :: "vec \<Rightarrow> vec \<Rightarrow> vec" where
  "subtract v1 v2 = \<lparr>vec_x = vec_x v1 - vec_x v2, vec_y = vec_y v1 - vec_y v2, vec_z = vec_z v1 - vec_z v2\<rparr>"

definition multiply :: "vec \<Rightarrow> real \<Rightarrow> vec" where
  "multiply v scalar = \<lparr>vec_x = vec_x v * scalar, vec_y = vec_y v * scalar, vec_z = vec_z v * scalar\<rparr>"

text \<open>
  \<open>divide\<close> (here \<open>divide_vec\<close>) is real division. Every call in this development is reached with a nonzero
  scalar only: the caller tests for zero first, where JavaScript would produce a
  non-finite number.
\<close>

definition divide_vec :: "vec \<Rightarrow> real \<Rightarrow> vec" where
  "divide_vec v scalar = \<lparr>vec_x = vec_x v / scalar, vec_y = vec_y v / scalar, vec_z = vec_z v / scalar\<rparr>"

definition magnitude :: "vec \<Rightarrow> real" where
  "magnitude v = sqrt (vec_x v * vec_x v + vec_y v * vec_y v + vec_z v * vec_z v)"

definition normalize :: "vec \<Rightarrow> vec" where
  "normalize v = (let mag = magnitude v in if mag = 0 then zero_vec else divide_vec v mag)"

definition dot :: "vec \<Rightarrow> vec \<Rightarrow> real" where
  "dot v1 v2 = vec_x v1 * vec_x v2 + vec_y v1 * vec_y v2 + vec_z v1 * vec_z v2"


definition distance :: "vec \<Rightarrow> vec \<Rightarrow> real" where
  "distance v1 v2 =
     (let dx = vec_x v1 - vec_x v2; dy = vec_y v1 - vec_y v2; dz = vec_z v1 - vec_z v2
      in sqrt (dx * dx + dy * dy + dz * dz))"

subsection \<open>MathUtils: integration steps on a vector state\<close>

text \<open>
  \<open>rk4Step\<close> with a state that has the properties x, y and z. The fourth slope is
  computed and then passed as a third argument to \<open>add\<close>.
\<close>

definition rk4Step :: "(real \<Rightarrow> vec \<Rightarrow> vec) \<Rightarrow> real \<Rightarrow> vec \<Rightarrow> real \<Rightarrow> vec" where
  "rk4Step f t y h =
     (let k1 = f t y;
          k2 = f (t + h / 2) (add y (multiply k1 (h / 2)));
          k3 = f (t + h / 2) (add y (multiply k2 (h / 2)));
          k4 = f (t + h) (add y (multiply k3 h))
      in add y (multiply (add k1 (multiply (add k2 k3) 2)) (h / 6)))"

definition verletStep :: "vec \<Rightarrow> vec \<Rightarrow> vec \<Rightarrow> real \<Rightarrow> vec" where
  "verletStep position velocity acceleration dt =
     (let newPosition = add position (add (multiply velocity dt) (multiply acceleration (0.5 * dt * dt)))
      in newPosition)"

text \<open>
  The classic four-stage step as the specification words it:
  \<open>y + h/6 (k1 + 2 k2 + 2 k3 + k4)\<close>. Used only to compare \<open>rk4Step\<close> with.
\<close>

definition rk4_classic :: "(real \<Rightarrow> vec \<Rightarrow> vec) \<Rightarrow> real \<Rightarrow> vec \<Rightarrow> real \<Rightarrow> vec" where
  "rk4_classic f t y h =
     (let k1 = f t y;
          k2 = f (t + h / 2) (add y (multiply k1 (h / 2)));
          k3 = f (t + h / 2) (add y (multiply k2 (h / 2)));
          k4 = f (t + h) (add y (multiply k3 h))
      in add y (multiply (add (add (add k1 (multiply k2 2)) (multiply k3 2)) k4) (h / 6)))"

subsection \<open>MathUtils: energy and angular momentum\<close>

text \<open>
  The static methods read the gravitational constant as \<open>this.G\<close>, and \<open>this\<close> in a
  static method is the class MathUtils. The constructor assigns \<open>G\<close> to instances, and
  no source file assigns it to the class (which has the static getter
  \<open>GRAVITATIONAL_CONSTANT\<close>): the value that is read is undefined.
\<close>

definition MathUtils_G :: jsval where
  "MathUtils_G = Undefined"

definition kineticEnergy :: "real \<Rightarrow> vec \<Rightarrow> real" where
  "kineticEnergy m v = (let speed = magnitude v in 0.5 * m * speed * speed)"

definition gravitationalPotentialEnergy :: "real \<Rightarrow> real \<Rightarrow> vec \<Rightarrow> vec \<Rightarrow> jsval" where
  "gravitationalPotentialEnergy m1 m2 r1 r2 =
     (let d = distance r1 r2
      in if d = 0 then Num 0
         else js_div (js_times (js_times (js_neg MathUtils_G) (Num m1)) (Num m2)) (Num d))"


section \<open>Bodies and the engine state\<close>

record body =
  body_id :: nat
  mass :: real
  position :: vec
  velocity :: vec
  acceleration :: vec
  color :: string
  btype :: string
  radius :: real
  trail :: "(vec \<times> real) list"
  maxTrailLength :: nat

text \<open>
  \<open>totalEnergy\<close> adds in the order of the loops. The additions are those of the reals,
  as everywhere here; the program rounds each one, so its sum can depend on the order of
  the list, and nothing below relies on a sum being independent of the order.
\<close>

definition totalEnergy :: "body list \<Rightarrow> jsval" where
  "totalEnergy bs =
     (let kinetic = fold (\<lambda>b acc. js_plus acc (Num (kineticEnergy (mass b) (velocity b)))) bs (Num 0)
      in fold (\<lambda>i acc.
           fold (\<lambda>j acc'. js_plus acc' (gravitationalPotentialEnergy (mass (bs ! i)) (mass (bs ! j))
                                     (position (bs ! i)) (position (bs ! j))))
                [i + 1 ..< length bs] acc)
         [0 ..< length bs] kinetic)"


text \<open>
  A cell key is the string \<open>x,y,z\<close> of three integers in the source; the triple of
  integers stands for it. The spatial hash is a JavaScript Map, which iterates in the
  order of insertion: an association list. Its buckets hold references to the body
  objects of \<open>bodies\<close>; a reference is the body's index in \<open>bodies\<close>, and the hash
  is rebuilt by every operation that changes the list.
\<close>

type_synonym cell = "int \<times> int \<times> int"

type_synonym hash = "(cell \<times> nat list) list"

record statistics =
  forceCalculations :: nat
  integrationSteps :: nat
  collisions :: nat
  energyError :: jsval

record engine =
  bodies :: "body list"
  timeScale :: real
  integrationMethod :: string
  spatialHash :: hash
  initialEnergy :: jsval
  collisionDetection :: bool
  stats :: statistics

text \<open>Fields the constructor sets and no method assigns afterwards.\<close>

definition timeStep :: real where "timeStep = 1 / 60"
definition gravity :: real where "gravity = 667430 / 10 ^ 16"
definition softening :: real where "softening = 1 / 10 ^ 6"
definition maxBodies :: nat where "maxBodies = 1000"
definition hashCellSize :: real where "hashCellSize = 1000"
definition energyConservation :: bool where "energyConservation = True"
definition collisionRadius :: real where "collisionRadius = 0.1"

definition constructor :: engine where
  "constructor =
     \<lparr>bodies = [], timeScale = 1, integrationMethod = ''rk4'', spatialHash = [],
      initialEnergy = Num 0, collisionDetection = False,
      stats = \<lparr>forceCalculations = 0, integrationSteps = 0, collisions = 0, energyError = Num 0\<rparr>\<rparr>"

definition andThen :: "anomaly + 'a \<Rightarrow> ('a \<Rightarrow> anomaly + 'b) \<Rightarrow> anomaly + 'b" where
  "andThen r k = (case r of Inl e \<Rightarrow> Inl e | Inr v \<Rightarrow> k v)"

subsection \<open>The spatial hash\<close>

definition getCellKey :: "vec \<Rightarrow> cell" where
  "getCellKey p =
     (let cx = \<lfloor>vec_x p / hashCellSize\<rfloor>; cy = \<lfloor>vec_y p / hashCellSize\<rfloor>; cz = \<lfloor>vec_z p / hashCellSize\<rfloor>
      in (cx, cy, cz))"

definition hash_get :: "hash \<Rightarrow> cell \<Rightarrow> nat list" where
  "hash_get h c = (case map_of h c of Some bucket \<Rightarrow> bucket | None \<Rightarrow> [])"

fun hash_push :: "cell \<Rightarrow> nat \<Rightarrow> hash \<Rightarrow> hash" where
  "hash_push c k [] = [(c, [k])]"
| "hash_push c k ((c', bucket) # h) =
     (if c' = c then (c', bucket @ [k]) # h else (c', bucket) # hash_push c k h)"

definition updateSpatialHash :: "engine \<Rightarrow> engine" where
  "updateSpatialHash s =
     s\<lparr>spatialHash :=
         fold (\<lambda>k h. hash_push (getCellKey (position (bodies s ! k))) k h) [0 ..< length (bodies s)] []\<rparr>"

definition getNearbyCells :: "engine \<Rightarrow> cell list" where
  "getNearbyCells s = map fst (spatialHash s)"

definition getNeighboringCells :: "cell \<Rightarrow> cell list" where
  "getNeighboringCells c =
     (case c of (cx, cy, cz) \<Rightarrow>
        concat (map (\<lambda>dx. concat (map (\<lambda>dy. concat (map (\<lambda>dz.
          if dx = 0 \<and> dy = 0 \<and> dz = 0 then [] else [(cx + dx, cy + dy, cz + dz)])
          [-1, 0, 1])) [-1, 0, 1])) [-1, 0, 1]))"

subsection \<open>Adding and removing bodies\<close>

definition calculateRadius :: "real \<Rightarrow> anomaly + real" where
  "calculateRadius m = (if m < 0 then Inl NonFiniteNumber else Inr (root 3 m * 0.1))"

text \<open>
  \<open>pick\<close> is the index \<open>Math.floor(Math.random() * colors.length)\<close>, a number
  from 0 to 7.
\<close>

definition getRandomColor :: "nat \<Rightarrow> string" where
  "getRandomColor pick =
     [''#4ecdc4'', ''#8b5cf6'', ''#f97316'', ''#ef4444'',
      ''#22c55e'', ''#3b82f6'', ''#eab308'', ''#ec4899''] ! (pick mod 8)"

text \<open>
  \<open>addBody\<close> returns false (\<open>None\<close>) at capacity, the new body's id otherwise. The
  id is the length of the list at that moment.
\<close>

definition addBody ::
  "real \<Rightarrow> vec \<Rightarrow> vec \<Rightarrow> string option \<Rightarrow> string \<Rightarrow> nat \<Rightarrow> engine \<Rightarrow> anomaly + (nat option \<times> engine)" where
  "addBody m p v col ty pick s =
     (if length (bodies s) \<ge> maxBodies then Inr (None, s)
      else andThen (calculateRadius m) (\<lambda>r.
        let b = \<lparr>body_id = length (bodies s), mass = m, position = p, velocity = v,
                 acceleration = zero_vec,
                 color = (case col of Some c \<Rightarrow> if c = [] then getRandomColor pick else c
                          | None \<Rightarrow> getRandomColor pick),
                 btype = ty, radius = r, trail = [], maxTrailLength = 200\<rparr>;
            s1 = s\<lparr>bodies := bodies s @ [b]\<rparr>;
            s2 = updateSpatialHash s1
        in Inr (Some (body_id b), s2)))"

fun findIndex :: "('a \<Rightarrow> bool) \<Rightarrow> 'a list \<Rightarrow> nat option" where
  "findIndex P [] = None"
| "findIndex P (a # as) =
     (if P a then Some 0 else (case findIndex P as of None \<Rightarrow> None | Some i \<Rightarrow> Some (Suc i)))"

definition removeBody :: "nat \<Rightarrow> engine \<Rightarrow> bool \<times> engine" where
  "removeBody bodyId s =
     (case findIndex (\<lambda>b. body_id b = bodyId) (bodies s) of
        Some index \<Rightarrow>
          (True, updateSpatialHash (s\<lparr>bodies := take index (bodies s) @ drop (index + 1) (bodies s)\<rparr>))
      | None \<Rightarrow> (False, s))"

datatype command =
    AddBody real vec vec "string option" string nat
  | RemoveBody nat

fun run :: "command list \<Rightarrow> engine \<Rightarrow> anomaly + engine" where
  "run [] s = Inr s"
| "run (AddBody m p v col ty pick # cs) s = andThen (addBody m p v col ty pick s) (\<lambda>(r, s'). run cs s')"
| "run (RemoveBody bodyId # cs) s = run cs (snd (removeBody bodyId s))"

subsection \<open>The force model\<close>

text \<open>
  \<open>calculateForceBetween\<close> takes the two bodies by reference: \<open>i\<close> and \<open>j\<close> are
  their indices in \<open>bodies\<close>. With a zero mass the accelerations it writes are not
  finite (0/0, or 0 times -1/0).
\<close>

definition calculateForceBetween :: "nat \<Rightarrow> nat \<Rightarrow> engine \<Rightarrow> anomaly + engine" where
  "calculateForceBetween i j s =
     (let body1 = bodies s ! i; body2 = bodies s ! j;
          r = subtract (position body2) (position body1);
          d = magnitude r
      in if d < softening then Inr s
         else if mass body1 = 0 \<or> mass body2 = 0 then Inl NonFiniteNumber
         else
           let forceMagnitude = gravity * mass body1 * mass body2 / (d * d + softening * softening);
               forceDirection = normalize r;
               force = multiply forceDirection forceMagnitude;
               bs1 = (bodies s)[i := body1\<lparr>acceleration :=
                        add (acceleration body1) (divide_vec force (mass body1))\<rparr>];
               bs2 = bs1[j := (bs1 ! j)\<lparr>acceleration :=
                        add (acceleration (bs1 ! j)) (multiply force (- 1 / mass body2))\<rparr>]
           in Inr (s\<lparr>bodies := bs2,
                     stats := (stats s)\<lparr>forceCalculations := forceCalculations (stats s) + 1\<rparr>\<rparr>))"

fun forEachPair ::
  "(nat \<Rightarrow> nat \<Rightarrow> engine \<Rightarrow> anomaly + engine) \<Rightarrow> (nat \<times> nat) list \<Rightarrow> engine \<Rightarrow> anomaly + engine" where
  "forEachPair step [] s = Inr s"
| "forEachPair step ((i, j) # ps) s = andThen (step i j s) (forEachPair step ps)"

text \<open>
  The pairs one occupied cell contributes, in the order of the loops: the pairs
  \<open>i < j\<close> of its own bucket, then for each of the 26 neighbouring keys every body of
  the bucket with every body of the neighbour's bucket.
\<close>

definition cellPairs :: "hash \<Rightarrow> cell \<Rightarrow> (nat \<times> nat) list" where
  "cellPairs h c =
     (let bodiesInCell = hash_get h c
      in concat (map (\<lambda>i. map (\<lambda>j. (bodiesInCell ! i, bodiesInCell ! j)) [i + 1 ..< length bodiesInCell])
                     [0 ..< length bodiesInCell])
         @ concat (map (\<lambda>neighbor.
             concat (map (\<lambda>body1. map (\<lambda>body2. (body1, body2)) (hash_get h neighbor)) bodiesInCell))
             (getNeighboringCells c)))"

definition forcePairs :: "engine \<Rightarrow> (nat \<times> nat) list" where
  "forcePairs s = concat (map (cellPairs (spatialHash s)) (getNearbyCells s))"

text \<open>
  \<open>calculateForces\<close> zeroes the counter and the accelerations and runs
  \<open>calculateForceBetween\<close> over the pairs of the hash as it stands. It does not call
  \<open>updateSpatialHash\<close>.
\<close>

definition calculateForces :: "engine \<Rightarrow> anomaly + engine" where
  "calculateForces s =
     (let s1 = s\<lparr>stats := (stats s)\<lparr>forceCalculations := 0\<rparr>\<rparr>;
          s2 = s1\<lparr>bodies := map (\<lambda>b. b\<lparr>acceleration := zero_vec\<rparr>) (bodies s1)\<rparr>
      in forEachPair calculateForceBetween (forcePairs s2) s2)"

subsection \<open>The integrators\<close>

definition updateVerlet :: "real \<Rightarrow> engine \<Rightarrow> engine" where
  "updateVerlet dt s =
     s\<lparr>bodies := map (\<lambda>b.
          let newPosition = verletStep (position b) (velocity b) (acceleration b) dt;
              newVelocity = add (velocity b) (multiply (acceleration b) dt)
          in b\<lparr>position := newPosition, velocity := newVelocity\<rparr>) (bodies s)\<rparr>"

definition updateEuler :: "real \<Rightarrow> engine \<Rightarrow> engine" where
  "updateEuler dt s =
     s\<lparr>bodies := map (\<lambda>b.
          let b1 = b\<lparr>velocity := add (velocity b) (multiply (acceleration b) dt)\<rparr>
          in b1\<lparr>position := add (position b1) (multiply (velocity b1) dt)\<rparr>) (bodies s)\<rparr>"

text \<open>
  \<open>updateRK4\<close> hands the flat array of \<open>getStateVector\<close> to \<open>MathUtils.rk4Step\<close>,
  whose \<open>add\<close> and \<open>multiply\<close> read the properties x, y and z. An array has none of
  them, so with at least one body every position and velocity component ends as
  undefined; the section on the flat state vector below derives this from the
  JavaScript values. With no body the four calls of \<open>derivativeFunction\<close> only run
  \<open>calculateForces\<close>.
\<close>

definition updateRK4 :: "real \<Rightarrow> engine \<Rightarrow> anomaly + engine" where
  "updateRK4 dt s =
     (if bodies s = []
      then andThen (andThen (andThen (calculateForces s) calculateForces) calculateForces) calculateForces
      else Inl UndefinedComponent)"

subsection \<open>Trails, collisions, energy tracking\<close>

function trimTrail :: "nat \<Rightarrow> 'a list \<Rightarrow> 'a list" where
  "trimTrail n t = (if length t > n then trimTrail n (tl t) else t)"
  by pat_completeness auto
termination
  by (relation "measure (\<lambda>(n, t). length t)") auto

text \<open>\<open>now k\<close> is the reading of \<open>performance.now()\<close> taken for the body at index \<open>k\<close>.\<close>

definition updateTrails :: "(nat \<Rightarrow> real) \<Rightarrow> engine \<Rightarrow> engine" where
  "updateTrails now s =
     s\<lparr>bodies := map (\<lambda>k. let b = bodies s ! k
                           in b\<lparr>trail := trimTrail (maxTrailLength b) (trail b @ [(position b, now k)])\<rparr>)
                     [0 ..< length (bodies s)]\<rparr>"

text \<open>With a zero mass \<open>-1 / mass\<close> is infinite and the new velocity is not finite.\<close>

definition resolveCollision :: "nat \<Rightarrow> nat \<Rightarrow> engine \<Rightarrow> anomaly + engine" where
  "resolveCollision i j s =
     (let body1 = bodies s ! i; body2 = bodies s ! j;
          normal = normalize (subtract (position body2) (position body1));
          relativeVelocity = subtract (velocity body2) (velocity body1);
          velocityAlongNormal = dot relativeVelocity normal
      in if velocityAlongNormal > 0 then Inr s
         else if mass body1 = 0 \<or> mass body2 = 0 then Inl NonFiniteNumber
         else
           let restitution = 0.8;
               impulse = - (1 + restitution) * velocityAlongNormal;
               impulseVector = multiply normal impulse;
               bs1 = (bodies s)[i := body1\<lparr>velocity :=
                        add (velocity body1) (multiply impulseVector (- 1 / mass body1))\<rparr>];
               bs2 = bs1[j := (bs1 ! j)\<lparr>velocity :=
                        add (velocity (bs1 ! j)) (multiply impulseVector (1 / mass body2))\<rparr>]
           in Inr (s\<lparr>bodies := bs2\<rparr>))"

definition collisionCheck :: "nat \<Rightarrow> nat \<Rightarrow> engine \<Rightarrow> anomaly + engine" where
  "collisionCheck i j s =
     (let body1 = bodies s ! i; body2 = bodies s ! j;
          d = distance (position body1) (position body2);
          collisionDistance = radius body1 + radius body2
      in if d < collisionDistance
         then andThen (resolveCollision i j s)
                (\<lambda>s'. Inr (s'\<lparr>stats := (stats s')\<lparr>collisions := collisions (stats s') + 1\<rparr>\<rparr>))
         else Inr s)"

definition handleCollisions :: "engine \<Rightarrow> anomaly + engine" where
  "handleCollisions s =
     forEachPair collisionCheck
       (concat (map (\<lambda>i. map (\<lambda>j. (i, j)) [i + 1 ..< length (bodies s)]) [0 ..< length (bodies s)]))
       (s\<lparr>stats := (stats s)\<lparr>collisions := 0\<rparr>\<rparr>)"

text \<open>
  The baseline is compared with \<open>=== 0\<close>; a baseline of NaN is not 0, so it is kept and
  divided by.
\<close>

definition trackEnergyConservation :: "engine \<Rightarrow> engine" where
  "trackEnergyConservation s =
     (if \<not> energyConservation then s
      else let currentEnergy = totalEnergy (bodies s)
           in if initialEnergy s = Num 0 then s\<lparr>initialEnergy := currentEnergy\<rparr>
              else s\<lparr>stats := (stats s)\<lparr>energyError :=
                       js_div (js_abs (js_minus currentEnergy (initialEnergy s))) (initialEnergy s)\<rparr>\<rparr>)"

subsection \<open>One tick\<close>

definition integrate :: "real \<Rightarrow> engine \<Rightarrow> anomaly + engine" where
  "integrate dt s =
     (if integrationMethod s = ''rk4'' then updateRK4 dt s
      else if integrationMethod s = ''verlet'' then Inr (updateVerlet dt s)
      else if integrationMethod s = ''euler'' then Inr (updateEuler dt s)
      else updateRK4 dt s)"

definition update :: "(nat \<Rightarrow> real) \<Rightarrow> real \<Rightarrow> engine \<Rightarrow> anomaly + engine" where
  "update now deltaTime s =
     (let dt = deltaTime * timeScale s
      in if dt \<le> 0 then Inr s
         else
           let s1 = s\<lparr>stats := (stats s)\<lparr>integrationSteps := integrationSteps (stats s) + 1\<rparr>\<rparr>
           in andThen (integrate dt s1) (\<lambda>s2.
                let s3 = updateTrails now s2
                in andThen (if collisionDetection s3 then handleCollisions s3 else Inr s3) (\<lambda>s4.
                     let s5 = updateSpatialHash s4
                     in Inr (trackEnergyConservation s5))))"

subsection \<open>Settings\<close>

definition clamp :: "real \<Rightarrow> real \<Rightarrow> real \<Rightarrow> real" where
  "clamp v lo hi = min (max v lo) hi"

definition setTimeScale :: "real \<Rightarrow> engine \<Rightarrow> engine" where
  "setTimeScale scale s = s\<lparr>timeScale := clamp scale 0.01 100\<rparr>"

definition setIntegrationMethod :: "string \<Rightarrow> engine \<Rightarrow> engine" where
  "setIntegrationMethod method s =
     (if method \<in> set [''rk4'', ''verlet'', ''euler''] then s\<lparr>integrationMethod := method\<rparr> else s)"

definition setCollisionDetection :: "bool \<Rightarrow> engine \<Rightarrow> engine" where
  "setCollisionDetection enabled s = s\<lparr>collisionDetection := enabled\<rparr>"

definition reset :: "engine \<Rightarrow> engine" where
  "reset s =
     s\<lparr>bodies := [], spatialHash := [], initialEnergy := Num 0,
       stats := \<lparr>forceCalculations = 0, integrationSteps = 0, collisions = 0, energyError = Num 0\<rparr>\<rparr>"

section \<open>The flat state vector of the RK4 path, on JavaScript values\<close>

text \<open>
  \<open>getStateVector\<close> builds an array of numbers, and \<open>rk4Step\<close> applies
  \<open>MathUtils.add\<close> and \<open>MathUtils.multiply\<close> to it. What these do to an array is
  decided by JavaScript's property access and number conversion, embedded here on the
  values \<open>jsval\<close>: a state is an array or an object with the properties x, y and z.
  Reading x, y or z of an array, or an index of such an object, gives undefined;
  arithmetic with undefined or NaN gives NaN.
\<close>

datatype jsstate = Arr "jsval list" | Obj jsval jsval jsval

fun prop_x :: "jsstate \<Rightarrow> jsval" where
  "prop_x (Obj a b c) = a"
| "prop_x (Arr vs) = Undefined"

fun prop_y :: "jsstate \<Rightarrow> jsval" where
  "prop_y (Obj a b c) = b"
| "prop_y (Arr vs) = Undefined"

fun prop_z :: "jsstate \<Rightarrow> jsval" where
  "prop_z (Obj a b c) = c"
| "prop_z (Arr vs) = Undefined"

fun at_index :: "jsstate \<Rightarrow> nat \<Rightarrow> jsval" where
  "at_index (Arr vs) n = (if n < length vs then vs ! n else Undefined)"
| "at_index (Obj a b c) n = Undefined"

definition add_js :: "jsstate \<Rightarrow> jsstate \<Rightarrow> jsstate" where
  "add_js v1 v2 =
     Obj (js_plus (prop_x v1) (prop_x v2)) (js_plus (prop_y v1) (prop_y v2)) (js_plus (prop_z v1) (prop_z v2))"

definition multiply_js :: "jsstate \<Rightarrow> jsval \<Rightarrow> jsstate" where
  "multiply_js v scalar =
     Obj (js_times (prop_x v) scalar) (js_times (prop_y v) scalar) (js_times (prop_z v) scalar)"

definition obj_of_vec :: "vec \<Rightarrow> jsstate" where
  "obj_of_vec v = Obj (Num (vec_x v)) (Num (vec_y v)) (Num (vec_z v))"

text \<open>
  The derivative callback mutates the engine, so the stepper threads a state \<open>'st\<close>
  through its four calls.
\<close>

definition rk4Step_js ::
  "(real \<Rightarrow> jsstate \<Rightarrow> 'st \<Rightarrow> jsstate \<times> 'st) \<Rightarrow> real \<Rightarrow> jsstate \<Rightarrow> real \<Rightarrow> 'st \<Rightarrow> jsstate \<times> 'st" where
  "rk4Step_js f t y h st0 =
     (let (k1, st1) = f t y st0;
          (k2, st2) = f (t + h / 2) (add_js y (multiply_js k1 (Num (h / 2)))) st1;
          (k3, st3) = f (t + h / 2) (add_js y (multiply_js k2 (Num (h / 2)))) st2;
          (k4, st4) = f (t + h) (add_js y (multiply_js k3 (Num h))) st3
      in (add_js y (multiply_js (add_js k1 (multiply_js (add_js k2 k3) (Num 2))) (Num (h / 6))), st4))"

record jsbody =
  position_x :: jsval
  position_y :: jsval
  position_z :: jsval
  velocity_x :: jsval
  velocity_y :: jsval
  velocity_z :: jsval
  acceleration_x :: jsval
  acceleration_y :: jsval
  acceleration_z :: jsval

definition jsbody_of :: "body \<Rightarrow> jsbody" where
  "jsbody_of b =
     \<lparr>position_x = Num (vec_x (position b)), position_y = Num (vec_y (position b)),
      position_z = Num (vec_z (position b)),
      velocity_x = Num (vec_x (velocity b)), velocity_y = Num (vec_y (velocity b)),
      velocity_z = Num (vec_z (velocity b)),
      acceleration_x = Num (vec_x (acceleration b)), acceleration_y = Num (vec_y (acceleration b)),
      acceleration_z = Num (vec_z (acceleration b))\<rparr>"

definition getStateVector :: "jsbody list \<Rightarrow> jsstate" where
  "getStateVector bs =
     Arr (concat (map (\<lambda>b. [position_x b, position_y b, position_z b,
                              velocity_x b, velocity_y b, velocity_z b]) bs))"

fun setStateVector :: "jsstate \<Rightarrow> nat \<Rightarrow> jsbody list \<Rightarrow> jsbody list" where
  "setStateVector state index [] = []"
| "setStateVector state index (b # bs) =
     b\<lparr>position_x := at_index state index, position_y := at_index state (index + 1),
       position_z := at_index state (index + 2), velocity_x := at_index state (index + 3),
       velocity_y := at_index state (index + 4), velocity_z := at_index state (index + 5)\<rparr>
     # setStateVector state (index + 6) bs"

text \<open>
  \<open>derivativeFunction\<close> and \<open>updateRK4\<close> on these values. \<open>forces\<close> stands for
  \<open>calculateForces\<close> on bodies whose components may be undefined; the results below
  hold for every \<open>forces\<close>.
\<close>

definition derivativeFunction ::
  "(jsbody list \<Rightarrow> jsbody list) \<Rightarrow> real \<Rightarrow> jsstate \<Rightarrow> jsbody list \<Rightarrow> jsstate \<times> jsbody list" where
  "derivativeFunction forces t state bs =
     (let bs1 = setStateVector state 0 bs;
          bs2 = forces bs1
      in (Arr (concat (map (\<lambda>b. [velocity_x b, velocity_y b, velocity_z b,
                                   acceleration_x b, acceleration_y b, acceleration_z b]) bs2)), bs2))"

definition updateRK4_js :: "(jsbody list \<Rightarrow> jsbody list) \<Rightarrow> real \<Rightarrow> jsbody list \<Rightarrow> jsbody list" where
  "updateRK4_js forces dt bs =
     (let state = getStateVector bs;
          (newState, bs') = rk4Step_js (derivativeFunction forces) 0 state dt bs
      in setStateVector newState 0 bs')"

section \<open>Auxiliary notions for the statements\<close>

text \<open>A value that is NaN or a number that is not negative.\<close>

definition numericNonNegOrNaN :: "jsval \<Rightarrow> bool" where
  "numericNonNegOrNaN v = (case v of Num e \<Rightarrow> 0 \<le> e | NaN \<Rightarrow> True | Undefined \<Rightarrow> False)"

text \<open>The relative velocity of two bodies along the collision normal, as \<open>resolveCollision\<close> measures it.\<close>

definition normalVelocity :: "body \<Rightarrow> body \<Rightarrow> real" where
  "normalVelocity body1 body2 =
     dot (subtract (velocity body2) (velocity body1))
         (normalize (subtract (position body2) (position body1)))"

definition motion :: "engine \<Rightarrow> (vec \<times> vec \<times> vec) list" where
  "motion s = map (\<lambda>b. (position b, velocity b, acceleration b)) (bodies s)"

definition components :: "jsbody \<Rightarrow> jsval list" where
  "components b = [position_x b, position_y b, position_z b, velocity_x b, velocity_y b, velocity_z b]"

subsection \<open>Example configurations\<close>

text \<open>A body of mass 1 as \<open>addBody\<close> creates it; its radius is \<open>Math.pow(1, 1/3) * 0.1 = 0.1\<close>.\<close>

definition unit_body :: "nat \<Rightarrow> vec \<Rightarrow> vec \<Rightarrow> body" where
  "unit_body n p v =
     \<lparr>body_id = n, mass = 1, position = p, velocity = v, acceleration = zero_vec,
      color = ''#4ecdc4'', btype = ''body'', radius = 0.1, trail = [], maxTrailLength = 200\<rparr>"

text \<open>Two bodies at rest, one unit apart, in the same cell.\<close>

definition at_rest :: engine where
  "at_rest = updateSpatialHash (constructor\<lparr>bodies :=
      [unit_body 0 \<lparr>vec_x = 0, vec_y = 0, vec_z = 0\<rparr> zero_vec,
       unit_body 1 \<lparr>vec_x = 1, vec_y = 0, vec_z = 0\<rparr> zero_vec]\<rparr>)"

text \<open>Two bodies at rest, one unit apart, on the two sides of a cell boundary.\<close>

definition across_cells :: engine where
  "across_cells = updateSpatialHash (constructor\<lparr>bodies :=
      [unit_body 0 \<lparr>vec_x = 999, vec_y = 0, vec_z = 0\<rparr> zero_vec,
       unit_body 1 \<lparr>vec_x = 1000, vec_y = 0, vec_z = 0\<rparr> zero_vec]\<rparr>)"

text \<open>Two bodies at the same position.\<close>

definition twins :: engine where
  "twins = updateSpatialHash (constructor\<lparr>bodies :=
      [unit_body 0 \<lparr>vec_x = 1, vec_y = 2, vec_z = 3\<rparr> zero_vec,
       unit_body 1 \<lparr>vec_x = 1, vec_y = 2, vec_z = 3\<rparr> zero_vec]\<rparr>)"

text \<open>Two overlapping bodies that move towards each other along the x axis.\<close>

definition head_on :: engine where
  "head_on = updateSpatialHash (constructor\<lparr>bodies :=
      [unit_body 0 \<lparr>vec_x = 0, vec_y = 0, vec_z = 0\<rparr> \<lparr>vec_x = 1, vec_y = 0, vec_z = 0\<rparr>,
       unit_body 1 \<lparr>vec_x = 0.1, vec_y = 0, vec_z = 0\<rparr> \<lparr>vec_x = - 1, vec_y = 0, vec_z = 0\<rparr>]\<rparr>)"

text \<open>The Figure-8 preset, and the same bodies in another order.\<close>

definition figure8_body1 :: body where
  "figure8_body1 =
     unit_body 0 \<lparr>vec_x = - 1, vec_y = 0, vec_z = 0\<rparr> \<lparr>vec_x = 0, vec_y = 0.5, vec_z = 0\<rparr>"

definition figure8_body2 :: body where
  "figure8_body2 =
     (unit_body 1 \<lparr>vec_x = 1, vec_y = 0, vec_z = 0\<rparr> \<lparr>vec_x = 0, vec_y = - 0.5, vec_z = 0\<rparr>)
       \<lparr>color := ''#8b5cf6''\<rparr>"

definition figure8_body3 :: body where
  "figure8_body3 =
     (unit_body 2 \<lparr>vec_x = 0, vec_y = 0, vec_z = 0\<rparr> \<lparr>vec_x = 0, vec_y = 0, vec_z = 0\<rparr>)
       \<lparr>color := ''#f97316''\<rparr>"

definition figure8 :: "body list" where
  "figure8 = [figure8_body1, figure8_body2, figure8_body3]"


text \<open>The acceleration one evaluation of a pair of unit masses one unit apart gives each body.\<close>

definition pull :: real where
  "pull = gravity / (1 + softening * softening)"

text \<open>A single moving body, for the flat state vector.\<close>

definition mover :: body where
  "mover = unit_body 0 \<lparr>vec_x = 1, vec_y = 2, vec_z = 3\<rparr> \<lparr>vec_x = 4, vec_y = 5, vec_z = 6\<rparr>"

section \<open>Facts about the example configurations\<close>

lemma magnitude_x_axis: "magnitude \<lparr>vec_x = a, vec_y = 0, vec_z = 0\<rparr> = \<bar>a\<bar>"
  by (simp add: magnitude_def)

lemma pull_pos: "0 < pull"
  by (simp add: pull_def gravity_def softening_def)

lemma at_rest_built:
  "run [AddBody 1 \<lparr>vec_x = 0, vec_y = 0, vec_z = 0\<rparr> zero_vec (Some ''#4ecdc4'') ''body'' 0,
        AddBody 1 \<lparr>vec_x = 1, vec_y = 0, vec_z = 0\<rparr> zero_vec (Some ''#4ecdc4'') ''body'' 0] constructor
   = Inr at_rest"
  by (simp add: addBody_def andThen_def constructor_def maxBodies_def calculateRadius_def
      updateSpatialHash_def Let_def at_rest_def unit_body_def getCellKey_def hashCellSize_def)

lemma at_rest_bodies:
  "bodies at_rest =
      [unit_body 0 \<lparr>vec_x = 0, vec_y = 0, vec_z = 0\<rparr> zero_vec,
       unit_body 1 \<lparr>vec_x = 1, vec_y = 0, vec_z = 0\<rparr> zero_vec]"
  by (simp add: at_rest_def updateSpatialHash_def)

lemma at_rest_hash: "spatialHash at_rest = [((0, 0, 0), [0, 1])]"
  by (simp add: at_rest_def updateSpatialHash_def constructor_def unit_body_def getCellKey_def
      hashCellSize_def)

lemma at_rest_forces:
  "map_sum id (\<lambda>s. map acceleration (bodies s)) (calculateForces at_rest)
    = Inr [\<lparr>vec_x = pull, vec_y = 0, vec_z = 0\<rparr>, \<lparr>vec_x = - pull, vec_y = 0, vec_z = 0\<rparr>]"
  apply (simp add: calculateForces_def Let_def)
  apply (simp add: forcePairs_def getNearbyCells_def at_rest_hash cellPairs_def hash_get_def
      getNeighboringCells_def)
  apply (simp add: at_rest_bodies unit_body_def zero_vec_def)
  apply (simp add: calculateForceBetween_def andThen_def subtract_def magnitude_x_axis normalize_def
     softening_def Let_def divide_vec_def multiply_def add_def pull_def zero_vec_def)
  done

lemma update_euler_at_rest:
  "map_sum id motion (update now 1 (setIntegrationMethod ''euler'' at_rest)) = Inr (motion at_rest)"
  by (simp add: update_def setIntegrationMethod_def integrate_def updateEuler_def at_rest_bodies
       Let_def andThen_def updateTrails_def updateSpatialHash_def trackEnergyConservation_def
       at_rest_def constructor_def unit_body_def zero_vec_def add_def multiply_def motion_def)

lemma update_verlet_at_rest:
  "map_sum id motion (update now 1 (setIntegrationMethod ''verlet'' at_rest)) = Inr (motion at_rest)"
  by (simp add: update_def setIntegrationMethod_def integrate_def updateVerlet_def verletStep_def at_rest_bodies
       Let_def andThen_def updateTrails_def updateSpatialHash_def trackEnergyConservation_def
       at_rest_def constructor_def unit_body_def zero_vec_def add_def multiply_def motion_def)

lemma motion_at_rest:
  "motion at_rest =
     [(\<lparr>vec_x = 0, vec_y = 0, vec_z = 0\<rparr>, zero_vec, zero_vec),
      (\<lparr>vec_x = 1, vec_y = 0, vec_z = 0\<rparr>, zero_vec, zero_vec)]"
  by (simp add: motion_def at_rest_bodies unit_body_def)

lemma across_cells_built:
  "run [AddBody 1 \<lparr>vec_x = 999, vec_y = 0, vec_z = 0\<rparr> zero_vec (Some ''#4ecdc4'') ''body'' 0,
        AddBody 1 \<lparr>vec_x = 1000, vec_y = 0, vec_z = 0\<rparr> zero_vec (Some ''#4ecdc4'') ''body'' 0] constructor
   = Inr across_cells"
  by (simp add: addBody_def andThen_def constructor_def maxBodies_def calculateRadius_def
      updateSpatialHash_def Let_def across_cells_def unit_body_def getCellKey_def hashCellSize_def)

lemma across_cells_bodies:
  "bodies across_cells =
      [unit_body 0 \<lparr>vec_x = 999, vec_y = 0, vec_z = 0\<rparr> zero_vec,
       unit_body 1 \<lparr>vec_x = 1000, vec_y = 0, vec_z = 0\<rparr> zero_vec]"
  by (simp add: across_cells_def updateSpatialHash_def)

lemma across_cells_hash:
  "spatialHash across_cells = [((0, 0, 0), [0]), ((1, 0, 0), [1])]"
  by (simp add: across_cells_def updateSpatialHash_def constructor_def unit_body_def getCellKey_def
      hashCellSize_def)

lemma across_cells_pairs: "forcePairs across_cells = [(0, 1), (1, 0)]"
  by (simp add: forcePairs_def getNearbyCells_def across_cells_hash cellPairs_def hash_get_def
      getNeighboringCells_def)

lemma across_cells_forces:
  "map_sum id (\<lambda>s. (forceCalculations (stats s), map acceleration (bodies s)))
      (calculateForces across_cells)
    = Inr (2, [\<lparr>vec_x = 2 * pull, vec_y = 0, vec_z = 0\<rparr>, \<lparr>vec_x = - 2 * pull, vec_y = 0, vec_z = 0\<rparr>])"
  apply (simp add: calculateForces_def Let_def)
  apply (simp add: forcePairs_def getNearbyCells_def across_cells_hash cellPairs_def hash_get_def
      getNeighboringCells_def)
  apply (simp add: across_cells_bodies unit_body_def zero_vec_def)
  apply (simp add: calculateForceBetween_def andThen_def subtract_def magnitude_x_axis normalize_def
     softening_def Let_def divide_vec_def multiply_def add_def pull_def zero_vec_def)
  done

lemma normalize_tenth:
  "normalize \<lparr>vec_x = 1 / 10, vec_y = 0, vec_z = 0\<rparr> = \<lparr>vec_x = 1, vec_y = 0, vec_z = 0\<rparr>"
  by (simp add: normalize_def magnitude_x_axis divide_vec_def)

lemma distance_x_axis:
  "distance \<lparr>vec_x = a, vec_y = 0, vec_z = 0\<rparr> \<lparr>vec_x = b, vec_y = 0, vec_z = 0\<rparr> = \<bar>a - b\<bar>"
  by (simp add: distance_def)

lemma head_on_bodies:
  "bodies head_on =
      [unit_body 0 \<lparr>vec_x = 0, vec_y = 0, vec_z = 0\<rparr> \<lparr>vec_x = 1, vec_y = 0, vec_z = 0\<rparr>,
       unit_body 1 \<lparr>vec_x = 0.1, vec_y = 0, vec_z = 0\<rparr> \<lparr>vec_x = - 1, vec_y = 0, vec_z = 0\<rparr>]"
  by (simp add: head_on_def updateSpatialHash_def)

lemma head_on_built:
  "run [AddBody 1 \<lparr>vec_x = 0, vec_y = 0, vec_z = 0\<rparr> \<lparr>vec_x = 1, vec_y = 0, vec_z = 0\<rparr> (Some ''#4ecdc4'') ''body'' 0,
        AddBody 1 \<lparr>vec_x = 0.1, vec_y = 0, vec_z = 0\<rparr> \<lparr>vec_x = - 1, vec_y = 0, vec_z = 0\<rparr> (Some ''#4ecdc4'') ''body'' 0]
     constructor
   = Inr head_on"
  by (simp add: addBody_def andThen_def constructor_def maxBodies_def calculateRadius_def
      updateSpatialHash_def Let_def head_on_def unit_body_def getCellKey_def hashCellSize_def)

text \<open>With collision detection switched on, a tick reaches \<open>resolveCollision\<close> for this pair.\<close>

lemma head_on_collisions:
  "map_sum id (\<lambda>s. (map velocity (bodies s), collisions (stats s)))
      (handleCollisions head_on)
    = Inr ([\<lparr>vec_x = - 2.6, vec_y = 0, vec_z = 0\<rparr>, \<lparr>vec_x = 2.6, vec_y = 0, vec_z = 0\<rparr>], 1)"
  apply (simp add: handleCollisions_def head_on_bodies)
  apply (simp add: collisionCheck_def andThen_def head_on_bodies unit_body_def distance_x_axis Let_def)
  apply (simp add: resolveCollision_def head_on_bodies unit_body_def
      subtract_def normalize_tenth dot_def add_def multiply_def Let_def)
  done

section \<open>The generic RK4 stepper\<close>

lemma rk4Step_misses_k4:
  "rk4_classic f t y h =
     add (rk4Step f t y h)
         (multiply (f (t + h) (add y (multiply (f (t + h / 2) (add y (multiply (f (t + h / 2)
            (add y (multiply (f t y) (h / 2)))) (h / 2)))) h))) (h / 6))"
  by (simp add: rk4_classic_def rk4Step_def add_def multiply_def Let_def algebra_simps)

text \<open>
  C2. The claim: \<open>rk4Step f t y h\<close> is \<open>y + h/6 (k1 + 2 k2 + 2 k3 + k4)\<close> and so depends
  on \<open>k4\<close>. The code computes \<open>k4\<close> and drops it. For the slope \<open>f(t, y) = (t, 0, 0)\<close>,
  \<open>t = 0\<close>, \<open>y = 0\<close> and \<open>h = 6\<close> the slopes are \<open>k1 = 0\<close>, \<open>k2 = k3 = (3, 0, 0)\<close>,
  \<open>k4 = (6, 0, 0)\<close>: the code returns \<open>(12, 0, 0)\<close>, the classic step is \<open>(18, 0, 0)\<close>.
\<close>

theorem rk4Step_drops_k4:
  "rk4Step (\<lambda>t y. \<lparr>vec_x = t, vec_y = 0, vec_z = 0\<rparr>) 0 zero_vec 6 = \<lparr>vec_x = 12, vec_y = 0, vec_z = 0\<rparr>
   \<and> rk4_classic (\<lambda>t y. \<lparr>vec_x = t, vec_y = 0, vec_z = 0\<rparr>) 0 zero_vec 6 = \<lparr>vec_x = 18, vec_y = 0, vec_z = 0\<rparr>"
  by (simp add: rk4Step_def rk4_classic_def add_def multiply_def zero_vec_def)

section \<open>The flat state vector\<close>

text \<open>On objects with numeric x, y and z the operations on JavaScript values are the vector operations.\<close>

lemma add_js_obj: "add_js (obj_of_vec a) (obj_of_vec b) = obj_of_vec (add a b)"
  by (simp add: add_js_def obj_of_vec_def add_def)

lemma multiply_js_obj: "multiply_js (obj_of_vec a) (Num k) = obj_of_vec (multiply a k)"
  by (simp add: multiply_js_def obj_of_vec_def multiply_def)

lemma rk4Step_js_obj:
  assumes "\<And>t y st. f' t (obj_of_vec y) st = (obj_of_vec (f t y), st)"
  shows "rk4Step_js f' t (obj_of_vec y) h st = (obj_of_vec (rk4Step f t y h), st)"
  by (simp add: rk4Step_js_def rk4Step_def assms add_js_obj multiply_js_obj Let_def)

lemma add_js_Arr: "add_js (Arr vs) w = Obj NaN NaN NaN"
  by (simp add: add_js_def)

lemma rk4Step_js_Arr: "fst (rk4Step_js f t (Arr vs) h st) = Obj NaN NaN NaN"
  by (simp add: rk4Step_js_def add_js_Arr Let_def split: prod.splits)

lemma setStateVector_Obj:
  "map components (setStateVector (Obj a b c) n bs) = replicate (length bs) (replicate 6 Undefined)"
  by (induction bs arbitrary: n) (simp_all add: components_def numeral_eq_Suc)

lemma length_setStateVector: "length (setStateVector st n bs) = length bs"
  by (induction bs arbitrary: n) simp_all

lemma mover_state:
  "getStateVector [jsbody_of mover] = Arr [Num 1, Num 2, Num 3, Num 4, Num 5, Num 6]"
  by (simp add: getStateVector_def jsbody_of_def mover_def unit_body_def)

lemma mover_stepped:
  "map components (updateRK4_js (\<lambda>bs. bs) (1 / 60) [jsbody_of mover]) = [replicate 6 Undefined]"
  by (simp add: updateRK4_js_def rk4Step_js_def derivativeFunction_def getStateVector_def jsbody_of_def
     mover_def unit_body_def add_js_def multiply_js_def components_def numeral_eq_Suc zero_vec_def)

lemma rk4Step_js_state:
  "fst (rk4Step_js (derivativeFunction forces) 0 (getStateVector bs) dt bs) = Obj NaN NaN NaN"
  unfolding getStateVector_def by (rule rk4Step_js_Arr)

lemma updateRK4_js_unpacks_object:
  "\<exists>bs'. updateRK4_js forces dt bs = setStateVector (Obj NaN NaN NaN) 0 bs'"
proof -
  obtain newState bs' where step:
    "rk4Step_js (derivativeFunction forces) 0 (getStateVector bs) dt bs = (newState, bs')"
    by (cases "rk4Step_js (derivativeFunction forces) 0 (getStateVector bs) dt bs")
  have "newState = Obj NaN NaN NaN"
    using rk4Step_js_state [of forces bs dt] by (simp add: step)
  then have "updateRK4_js forces dt bs = setStateVector (Obj NaN NaN NaN) 0 bs'"
    by (simp add: updateRK4_js_def step Let_def)
  then show ?thesis by blast
qed

text \<open>
  C3. The claim: with the rk4 method the positions and velocities are packed into a flat
  sequence, the stepper works on that sequence whatever its shape, and after unpacking
  every component of every body is the corresponding entry of the stepper's result. The
  code packs an array, but the stepper's \<open>add\<close> and \<open>multiply\<close> read x, y and z: for every
  body list, step size and force routine the stepper returns the object
  \<open>{x: NaN, y: NaN, z: NaN}\<close>, and unpacking it writes undefined into all six components
  of every body.
\<close>

theorem updateRK4_flat_state_undefined:
  "fst (rk4Step_js (derivativeFunction forces) 0 (getStateVector bs) dt bs) = Obj NaN NaN NaN
   \<and> map components (updateRK4_js forces dt bs)
       = replicate (length (updateRK4_js forces dt bs)) (replicate 6 Undefined)"
proof -
  obtain bs' where "updateRK4_js forces dt bs = setStateVector (Obj NaN NaN NaN) 0 bs'"
    using updateRK4_js_unpacks_object by blast
  then show ?thesis
    by (simp add: rk4Step_js_state setStateVector_Obj length_setStateVector)
qed

text \<open>
  \<open>calculateForces\<close> neither adds nor removes a body, so on the rk4 path the engine keeps
  all its bodies, each with undefined components: the outcome \<open>UndefinedComponent\<close> of
  \<open>updateRK4\<close> for a list that is not empty.
\<close>

lemma updateRK4_js_length:
  assumes "\<And>bs. length (forces bs) = length bs"
  shows "length (updateRK4_js forces dt bs) = length bs"
proof -
  have d: "length (snd (derivativeFunction forces t st bs)) = length bs" for t st bs
    by (simp add: derivativeFunction_def Let_def assms length_setStateVector)
  have "length (snd (rk4Step_js (derivativeFunction forces) t y h bs)) = length bs" for t y h
    using d by (simp add: rk4Step_js_def Let_def split: prod.splits) (metis snd_conv)
  then show ?thesis
    by (simp add: updateRK4_js_def Let_def length_setStateVector split: prod.splits) (metis snd_conv)
qed

lemma updateRK4_js_all_undefined:
  assumes "\<And>bs. length (forces bs) = length bs"
  shows "map components (updateRK4_js forces dt bs) = replicate (length bs) (replicate 6 Undefined)"
proof -
  obtain bs' where upd: "updateRK4_js forces dt bs = setStateVector (Obj NaN NaN NaN) 0 bs'"
    using updateRK4_js_unpacks_object by blast
  have "length bs' = length bs"
    using updateRK4_js_length [OF assms, of dt bs] by (simp add: upd length_setStateVector)
  then show ?thesis
    by (simp add: upd setStateVector_Obj)
qed

lemma update_rk4_at_rest: "update now 1 at_rest = Inl UndefinedComponent"
  by (simp add: update_def integrate_def updateRK4_def at_rest_def updateSpatialHash_def constructor_def
      andThen_def Let_def)

section \<open>The tick and the force model\<close>

text \<open>The euler and verlet steps read the accelerations and never write them.\<close>

lemma updateEuler_acceleration:
  "map acceleration (bodies (updateEuler dt s)) = map acceleration (bodies s)"
  by (simp add: updateEuler_def Let_def o_def)

lemma updateVerlet_acceleration:
  "map acceleration (bodies (updateVerlet dt s)) = map acceleration (bodies s)"
  by (simp add: updateVerlet_def Let_def o_def)

lemma integrate_keeps_acceleration:
  assumes "integrationMethod s = ''euler'' \<or> integrationMethod s = ''verlet''"
  shows "\<exists>s'. integrate dt s = Inr s' \<and> map acceleration (bodies s') = map acceleration (bodies s)
            \<and> forceCalculations (stats s') = forceCalculations (stats s)"
  using assms
  by (auto simp: integrate_def updateEuler_acceleration updateVerlet_acceleration updateEuler_def updateVerlet_def)

text \<open>
  C1. The claim: for euler, verlet and rk4 alike, a tick with \<open>deltaTime * timeScale > 0\<close>
  recomputes every acceleration from the current positions before the integrator
  advances. Only \<open>derivativeFunction\<close>, on the rk4 path, calls \<open>calculateForces\<close>. With
  euler or verlet selected, a tick of two bodies at rest one unit apart leaves positions,
  velocities and the zero accelerations as they were, while \<open>calculateForces\<close> on that
  state gives the accelerations \<open>pull\<close> and \<open>- pull\<close>, which are not zero.
\<close>

theorem update_euler_verlet_stale_acceleration:
  "map_sum id motion (update now 1 (setIntegrationMethod ''euler'' at_rest)) = Inr (motion at_rest)
   \<and> map_sum id motion (update now 1 (setIntegrationMethod ''verlet'' at_rest)) = Inr (motion at_rest)
   \<and> map acceleration (bodies at_rest) = [zero_vec, zero_vec]
   \<and> map_sum id (\<lambda>s. map acceleration (bodies s)) (calculateForces at_rest)
        = Inr [\<lparr>vec_x = pull, vec_y = 0, vec_z = 0\<rparr>, \<lparr>vec_x = - pull, vec_y = 0, vec_z = 0\<rparr>]
   \<and> 0 < pull"
  by (simp add: update_euler_at_rest update_verlet_at_rest at_rest_forces pull_pos at_rest_bodies unit_body_def)

text \<open>\<open>calculateForces\<close> leaves the spatial hash as it finds it.\<close>

lemma calculateForceBetween_hash:
  "calculateForceBetween i j s = Inr s' \<Longrightarrow> spatialHash s' = spatialHash s"
  by (auto simp: calculateForceBetween_def Let_def split: if_splits)

lemma forEachPair_hash:
  assumes "\<And>i j s s'. step i j s = Inr s' \<Longrightarrow> spatialHash s' = spatialHash s"
  shows "forEachPair step ps s = Inr s' \<Longrightarrow> spatialHash s' = spatialHash s"
proof (induction ps arbitrary: s)
  case Nil
  then show ?case by simp
next
  case (Cons p ps)
  obtain i j where p: "p = (i, j)" by (cases p)
  from Cons.prems obtain s1 where s1: "step i j s = Inr s1" and rest: "forEachPair step ps s1 = Inr s'"
    unfolding p by (auto simp: andThen_def split: sum.splits)
  show ?case
    using Cons.IH [OF rest] assms [OF s1] by simp
qed

lemma calculateForces_keeps_hash:
  "calculateForces s = Inr s' \<Longrightarrow> spatialHash s' = spatialHash s"
  unfolding calculateForces_def Let_def
  using forEachPair_hash [of calculateForceBetween, OF calculateForceBetween_hash] by fastforce

text \<open>
  C4. The claim: \<open>calculateForces\<close> zeroes the accelerations, rebuilds the spatial index,
  and then evaluates every pair of one cell once and every pair of two neighbouring cells
  once, counting one evaluation per pair. The code does not rebuild the index, and it
  visits a pair of neighbouring cells from both cells: for two bodies one unit apart on the
  two sides of a cell boundary the pairs evaluated are \<open>(0, 1)\<close> and \<open>(1, 0)\<close>, the counter
  ends at 2 and the accelerations are twice those of one evaluation.
\<close>

theorem calculateForces_neighbor_pair_twice:
  "forcePairs across_cells = [(0, 1), (1, 0)]
   \<and> map_sum id (\<lambda>s. (forceCalculations (stats s), map acceleration (bodies s)))
        (calculateForces across_cells)
      = Inr (2, [\<lparr>vec_x = 2 * pull, vec_y = 0, vec_z = 0\<rparr>, \<lparr>vec_x = - 2 * pull, vec_y = 0, vec_z = 0\<rparr>])"
  by (simp add: across_cells_pairs across_cells_forces)

section \<open>Collisions\<close>

lemma magnitude_zero_iff: "magnitude r = 0 \<longleftrightarrow> r = zero_vec"
proof
  assume "magnitude r = 0"
  then have sum: "(vec_x r * vec_x r + vec_y r * vec_y r) + vec_z r * vec_z r = 0"
    by (simp add: magnitude_def)
  have "0 \<le> vec_x r * vec_x r + vec_y r * vec_y r" "0 \<le> vec_z r * vec_z r"
    by simp_all
  then have "vec_x r * vec_x r + vec_y r * vec_y r = 0 \<and> vec_z r * vec_z r = 0"
    using sum by (simp only: add_nonneg_eq_0_iff)
  then have "vec_x r = 0 \<and> vec_y r = 0 \<and> vec_z r = 0"
    by (simp add: sum_squares_eq_zero_iff)
  then show "r = zero_vec" by (cases r) (simp add: zero_vec_def)
next
  assume "r = zero_vec"
  then show "magnitude r = 0" by (simp add: magnitude_def zero_vec_def)
qed

lemma subtract_zero_iff: "subtract q p = zero_vec \<longleftrightarrow> q = p"
  by (cases p, cases q) (simp add: subtract_def zero_vec_def)

lemma normalize_unit:
  assumes "magnitude r \<noteq> 0"
  shows "dot (normalize r) (normalize r) = 1"
proof -
  define m where "m = magnitude r"
  have "0 \<le> vec_x r * vec_x r + vec_y r * vec_y r + vec_z r * vec_z r" by simp
  then have mm: "m * m = vec_x r * vec_x r + vec_y r * vec_y r + vec_z r * vec_z r"
    unfolding m_def magnitude_def by (simp only: real_sqrt_mult_self abs_of_nonneg)
  have "dot (normalize r) (normalize r) =
          (vec_x r * vec_x r + vec_y r * vec_y r + vec_z r * vec_z r) / (m * m)"
    using assms by (simp add: normalize_def dot_def divide_vec_def m_def [symmetric] add_divide_distrib)
  also have "\<dots> = (m * m) / (m * m)" by (simp only: mm)
  also have "\<dots> = 1" using assms by (simp add: m_def)
  finally show ?thesis .
qed

lemma dot_impulse:
  "dot (subtract (add v2 (multiply (multiply n J) a2)) (add v1 (multiply (multiply n J) a1))) n
     = dot (subtract v2 v1) n + J * (a2 - a1) * dot n n"
  by (simp add: dot_def subtract_def add_def multiply_def algebra_simps)

text \<open>
  What \<open>resolveCollision\<close> does to the relative normal velocity \<open>vn\<close> of two distinct
  bodies at different positions: it becomes \<open>vn (1 - 1.8 (1/m1 + 1/m2))\<close>, which is
  \<open>-0.8 vn\<close> only when \<open>1/m1 + 1/m2 = 1\<close>.
\<close>

lemma resolveCollision_normal_velocity:
  assumes ij: "i \<noteq> j" and i: "i < length (bodies s)" and j: "j < length (bodies s)"
    and m: "mass (bodies s ! i) \<noteq> 0" "mass (bodies s ! j) \<noteq> 0"
    and apart: "position (bodies s ! j) \<noteq> position (bodies s ! i)"
    and approaching: "normalVelocity (bodies s ! i) (bodies s ! j) \<le> 0"
  shows "\<exists>s'. resolveCollision i j s = Inr s'
           \<and> normalVelocity (bodies s' ! i) (bodies s' ! j)
               = normalVelocity (bodies s ! i) (bodies s ! j)
                   * (1 - 1.8 * (1 / mass (bodies s ! i) + 1 / mass (bodies s ! j)))"
proof -
  define b1 where "b1 = bodies s ! i"
  define b2 where "b2 = bodies s ! j"
  define n where "n = normalize (subtract (position b2) (position b1))"
  define vn where "vn = dot (subtract (velocity b2) (velocity b1)) n"
  have mag: "magnitude (subtract (position b2) (position b1)) \<noteq> 0"
    using apart by (simp add: magnitude_zero_iff subtract_zero_iff b1_def b2_def)
  have unit: "dot n n = 1" unfolding n_def using mag by (rule normalize_unit)
  have vn: "normalVelocity b1 b2 = vn" by (simp add: normalVelocity_def vn_def n_def)
  define b1' where "b1' = b1\<lparr>velocity := add (velocity b1) (multiply (multiply n (- (1 + 0.8) * vn)) (- 1 / mass b1))\<rparr>"
  define b2' where "b2' = b2\<lparr>velocity := add (velocity b2) (multiply (multiply n (- (1 + 0.8) * vn)) (1 / mass b2))\<rparr>"
  define s' where "s' = s\<lparr>bodies := (bodies s)[i := b1', j := b2']\<rparr>"
  have res: "resolveCollision i j s = Inr s'"
    using approaching m ij i j
    by (simp add: resolveCollision_def Let_def vn [unfolded b1_def b2_def] s'_def b1'_def b2'_def
        b1_def [symmetric] b2_def [symmetric] n_def [symmetric] vn_def [symmetric]
        normalVelocity_def)
  have at: "bodies s' ! i = b1'" "bodies s' ! j = b2'"
    using ij i j by (simp_all add: s'_def)
  have "normalVelocity b1' b2' = dot (subtract (velocity b2') (velocity b1')) n"
    by (simp add: normalVelocity_def b1'_def b2'_def n_def)
  also have "\<dots> = vn + (- (1 + 0.8) * vn) * (1 / mass b2 - (- 1 / mass b1)) * dot n n"
    unfolding b1'_def b2'_def vn_def by (simp add: dot_impulse)
  also have "\<dots> = vn * (1 - 1.8 * (1 / mass b1 + 1 / mass b2))"
    unfolding unit by (simp add: algebra_simps)
  finally show ?thesis
    using res at vn by (simp add: b1_def b2_def)
qed

text \<open>
  C5. The claim: for positive masses, overlapping radii and an approaching pair,
  \<open>resolveCollision\<close> makes the relative velocity along the normal exactly -0.8 times
  what it was. The impulse of the code is \<open>-(1 + 0.8) vn\<close>, not divided by
  \<open>1/m1 + 1/m2\<close>. For two bodies of mass 1 and radius 0.1 at distance 0.1 with
  velocities 1 and -1 along the x axis the relative normal velocity is -2 before and
  5.2 after; -0.8 times -2 is 1.6.
\<close>

theorem resolveCollision_restitution_off:
  "map_sum id (\<lambda>s. (map velocity (bodies s), normalVelocity (bodies s ! 0) (bodies s ! 1)))
      (resolveCollision 0 1 head_on)
    = Inr ([\<lparr>vec_x = - 2.6, vec_y = 0, vec_z = 0\<rparr>, \<lparr>vec_x = 2.6, vec_y = 0, vec_z = 0\<rparr>], 5.2)
   \<and> normalVelocity (bodies head_on ! 0) (bodies head_on ! 1) = - 2
   \<and> distance (position (bodies head_on ! 0)) (position (bodies head_on ! 1))
        < radius (bodies head_on ! 0) + radius (bodies head_on ! 1)
   \<and> map mass (bodies head_on) = [1, 1]"
  by (simp add: resolveCollision_def head_on_bodies unit_body_def normalVelocity_def
      subtract_def normalize_tenth dot_def add_def multiply_def distance_def Let_def)

section \<open>Body ids\<close>

text \<open>
  C6. The claim: after any sequence of \<open>addBody\<close> and \<open>removeBody\<close> the ids of the live
  bodies are pairwise distinct. The id of a new body is the length of the list: after two
  additions, the removal of body 0 and one more addition, both live bodies have id 1.
\<close>

theorem ids_collide_after_remove:
  "map_sum id (map body_id \<circ> bodies)
     (run [AddBody 1 zero_vec zero_vec None ''body'' 0,
           AddBody 1 zero_vec zero_vec None ''body'' 0,
           RemoveBody 0,
           AddBody 1 zero_vec zero_vec None ''body'' 0] constructor) = Inr [1, 1]"
  by (simp add: addBody_def removeBody_def andThen_def constructor_def maxBodies_def calculateRadius_def
      updateSpatialHash_def Let_def)

section \<open>The spatial index finds every close pair\<close>

lemma floor_div_close:
  fixes a b c :: real
  assumes "\<bar>a - b\<bar> < c"
  shows "\<bar>\<lfloor>a / c\<rfloor> - \<lfloor>b / c\<rfloor>\<bar> \<le> 1"
proof -
  have c: "0 < c" using assms by linarith
  have "a / c - b / c = (a - b) / c"
    by (simp add: diff_divide_distrib)
  then have "\<bar>a / c - b / c\<bar> = \<bar>a - b\<bar> / c"
    using c by simp
  then have "\<bar>a / c - b / c\<bar> < 1"
    using assms c by simp
  then show ?thesis by linarith
qed

lemma abs_le_sqrt_sum:
  fixes a b c :: real
  shows "\<bar>a\<bar> \<le> sqrt (a * a + b * b + c * c)" "\<bar>b\<bar> \<le> sqrt (a * a + b * b + c * c)"
    "\<bar>c\<bar> \<le> sqrt (a * a + b * b + c * c)"
proof -
  have "sqrt (a * a) \<le> sqrt (a * a + b * b + c * c)"
    by (rule real_sqrt_le_mono) simp
  then show "\<bar>a\<bar> \<le> sqrt (a * a + b * b + c * c)" by simp
  have "sqrt (b * b) \<le> sqrt (a * a + b * b + c * c)"
    by (rule real_sqrt_le_mono) simp
  then show "\<bar>b\<bar> \<le> sqrt (a * a + b * b + c * c)" by simp
  have "sqrt (c * c) \<le> sqrt (a * a + b * b + c * c)"
    by (rule real_sqrt_le_mono) simp
  then show "\<bar>c\<bar> \<le> sqrt (a * a + b * b + c * c)" by simp
qed

lemma component_le_distance:
  "\<bar>vec_x p - vec_x q\<bar> \<le> distance p q" "\<bar>vec_y p - vec_y q\<bar> \<le> distance p q"
  "\<bar>vec_z p - vec_z q\<bar> \<le> distance p q"
  unfolding distance_def Let_def by (rule abs_le_sqrt_sum)+

lemma set_triple_loop:
  "set (concat (map (\<lambda>dx. concat (map (\<lambda>dy. concat (map (\<lambda>dz.
          if P dx dy dz then [] else [f dx dy dz]) ds)) ds)) ds))
     = {f dx dy dz | dx dy dz. dx \<in> set ds \<and> dy \<in> set ds \<and> dz \<in> set ds \<and> \<not> P dx dy dz}"
  by auto

lemma neighbor_offsets:
  assumes "dx \<in> {-1, 0, 1}" "dy \<in> {-1, 0, 1}" "dz \<in> {-1, 0, 1}" "\<not> (dx = 0 \<and> dy = 0 \<and> dz = 0)"
  shows "(cx + dx, cy + dy, cz + dz) \<in> set (getNeighboringCells (cx, cy, cz))"
proof -
  have "set (getNeighboringCells (cx, cy, cz)) =
      {(cx + a, cy + b, cz + c) | a b c. a \<in> set [-1, 0, 1] \<and> b \<in> set [-1, 0, 1] \<and> c \<in> set [-1, 0, 1]
          \<and> \<not> (a = 0 \<and> b = 0 \<and> c = 0)}"
    unfolding getNeighboringCells_def prod.case by (rule set_triple_loop)
  then show ?thesis using assms by auto
qed

lemma close_cells_neighbors:
  assumes "\<bar>ax - cx\<bar> \<le> 1" "\<bar>ay - cy\<bar> \<le> 1" "\<bar>az - cz\<bar> \<le> 1" "(ax, ay, az) \<noteq> (cx, cy, cz)"
  shows "(ax, ay, az) \<in> set (getNeighboringCells (cx, cy, (cz::int)))"
proof -
  have "ax - cx \<in> {-1, 0, 1}" "ay - cy \<in> {-1, 0, 1}" "az - cz \<in> {-1, 0, 1}"
    using assms(1-3) by auto
  moreover have "\<not> (ax - cx = 0 \<and> ay - cy = 0 \<and> az - cz = 0)"
    using assms(4) by simp
  ultimately have "(cx + (ax - cx), cy + (ay - cy), cz + (az - cz)) \<in> set (getNeighboringCells (cx, cy, cz))"
    by (rule neighbor_offsets)
  then show ?thesis by simp
qed

lemma keys_close:
  assumes "distance p q < hashCellSize"
  shows "getCellKey q = getCellKey p \<or> getCellKey q \<in> set (getNeighboringCells (getCellKey p))"
proof -
  have "\<bar>vec_x q - vec_x p\<bar> < hashCellSize" "\<bar>vec_y q - vec_y p\<bar> < hashCellSize"
    "\<bar>vec_z q - vec_z p\<bar> < hashCellSize"
    using assms component_le_distance [of p q] by linarith+
  then have "\<bar>\<lfloor>vec_x q / hashCellSize\<rfloor> - \<lfloor>vec_x p / hashCellSize\<rfloor>\<bar> \<le> 1"
    "\<bar>\<lfloor>vec_y q / hashCellSize\<rfloor> - \<lfloor>vec_y p / hashCellSize\<rfloor>\<bar> \<le> 1"
    "\<bar>\<lfloor>vec_z q / hashCellSize\<rfloor> - \<lfloor>vec_z p / hashCellSize\<rfloor>\<bar> \<le> 1"
    by (simp_all add: floor_div_close)
  then show ?thesis
    unfolding getCellKey_def Let_def
    by (metis close_cells_neighbors)
qed


lemma map_of_push:
  "map_of (hash_push c k h) c' = (if c' = c then Some (hash_get h c @ [k]) else map_of h c')"
proof (induction h)
  case Nil
  show ?case by (simp add: hash_get_def)
next
  case (Cons e h)
  obtain c'' bucket where e: "e = (c'', bucket)" by (cases e)
  show ?case
    unfolding e using Cons.IH by (auto simp: hash_get_def)
qed

lemma hash_get_push:
  "hash_get (hash_push c k h) c' = (if c' = c then hash_get h c @ [k] else hash_get h c')"
  unfolding hash_get_def [of "hash_push c k h"] map_of_push by (simp add: hash_get_def)

lemma keys_push: "fst ` set (hash_push c k h) = insert c (fst ` set h)"
proof (induction h)
  case Nil
  show ?case by simp
next
  case (Cons e h)
  obtain c' bucket where e: "e = (c', bucket)" by (cases e)
  show ?case
    unfolding e using Cons.IH by (simp add: insert_commute)
qed

lemma hash_get_fold:
  "hash_get (fold (\<lambda>k h. hash_push (key k) k h) ks h0) c = hash_get h0 c @ filter (\<lambda>k. key k = c) ks"
  by (induction ks arbitrary: h0) (simp_all add: hash_get_push)

lemma keys_fold:
  "fst ` set (fold (\<lambda>k h. hash_push (key k) k h) ks h0) = fst ` set h0 \<union> key ` set ks"
  by (induction ks arbitrary: h0) (simp_all add: keys_push)

lemma hash_get_Nil: "hash_get [] c = []"
  by (simp add: hash_get_def)

lemma fresh_bucket:
  "hash_get (spatialHash (updateSpatialHash s)) c
     = filter (\<lambda>k. getCellKey (position (bodies s ! k)) = c) [0 ..< length (bodies s)]"
  by (simp add: updateSpatialHash_def hash_get_fold hash_get_Nil)

lemma fresh_keys:
  "set (getNearbyCells (updateSpatialHash s))
     = (\<lambda>k. getCellKey (position (bodies s ! k))) ` {0 ..< length (bodies s)}"
  by (simp add: getNearbyCells_def updateSpatialHash_def keys_fold)

lemma set_forcePairs:
  "set (forcePairs s) = (\<Union>c \<in> set (getNearbyCells s). set (cellPairs (spatialHash s) c))"
  by (simp add: forcePairs_def)

lemma intra_pairs:
  "set (concat (map (\<lambda>a. map (\<lambda>b. (B ! a, B ! b)) [a + 1 ..< length B]) [0 ..< length B]))
     = {(B ! a, B ! b) | a b. a < b \<and> b < length B}"
proof -
  have "set (concat (map (\<lambda>a. map (\<lambda>b. (B ! a, B ! b)) [a + 1 ..< length B]) [0 ..< length B]))
      = (\<Union>a \<in> {0 ..< length B}. (\<lambda>b. (B ! a, B ! b)) ` {a + 1 ..< length B})"
    by (simp only: set_concat set_map set_upt image_image)
  also have "\<dots> = {(B ! a, B ! b) | a b. a < b \<and> b < length B}"
  proof (intro set_eqI iffI)
    fix p
    assume "p \<in> (\<Union>a \<in> {0 ..< length B}. (\<lambda>b. (B ! a, B ! b)) ` {a + 1 ..< length B})"
    then obtain a b where "b \<in> {a + 1 ..< length B}" "p = (B ! a, B ! b)"
      by blast
    then have "p = (B ! a, B ! b) \<and> a < b \<and> b < length B" by simp
    then show "p \<in> {(B ! a, B ! b) | a b. a < b \<and> b < length B}" by blast
  next
    fix p
    assume "p \<in> {(B ! a, B ! b) | a b. a < b \<and> b < length B}"
    then obtain a b where ab: "p = (B ! a, B ! b)" "a < b" "b < length B" by blast
    then have "a \<in> {0 ..< length B}" "b \<in> {a + 1 ..< length B}" by simp_all
    then show "p \<in> (\<Union>a \<in> {0 ..< length B}. (\<lambda>b. (B ! a, B ! b)) ` {a + 1 ..< length B})"
      unfolding ab(1) by blast
  qed
  finally show ?thesis .
qed

lemma neighbor_pairs:
  "set (concat (map (\<lambda>nb. concat (map (\<lambda>k. map (\<lambda>l. (k, l)) (g nb)) B)) N))
     = {(k, l) | k l nb. nb \<in> set N \<and> k \<in> set B \<and> l \<in> set (g nb)}"
  by (auto simp: image_iff)

lemma set_cellPairs:
  "set (cellPairs h c) =
     {(hash_get h c ! a, hash_get h c ! b) | a b. a < b \<and> b < length (hash_get h c)}
     \<union> {(k, l) | k l nb. nb \<in> set (getNeighboringCells c) \<and> k \<in> set (hash_get h c) \<and> l \<in> set (hash_get h nb)}"
  unfolding cellPairs_def Let_def set_append intra_pairs neighbor_pairs by (rule refl)

lemma same_bucket_pair:
  assumes "k \<in> set B" "l \<in> set B" "k \<noteq> l"
  shows "(k, l) \<in> {(B ! a, B ! b) | a b. a < b \<and> b < length B}
       \<or> (l, k) \<in> {(B ! a, B ! b) | a b. a < b \<and> b < length B}"
proof -
  obtain a where a: "a < length B" "B ! a = k" using assms(1) by (auto simp: in_set_conv_nth)
  obtain b where b: "b < length B" "B ! b = l" using assms(2) by (auto simp: in_set_conv_nth)
  have "a \<noteq> b" using a b assms(3) by auto
  then consider "a < b" | "b < a" by linarith
  then show ?thesis
  proof cases
    case 1
    then show ?thesis using a b by blast
  next
    case 2
    then show ?thesis using a b by blast
  qed
qed


text \<open>
  C7. Two bodies closer to each other than one cell edge have equal or neighbouring cell
  keys, and the force loops over a spatial hash built from the current positions evaluate
  the pair.
\<close>

theorem close_pair_considered:
  assumes i: "i < length (bodies s)" and j: "j < length (bodies s)" and ij: "i \<noteq> j"
    and close: "distance (position (bodies s ! i)) (position (bodies s ! j)) < hashCellSize"
  shows "(getCellKey (position (bodies s ! j)) = getCellKey (position (bodies s ! i))
          \<or> getCellKey (position (bodies s ! j)) \<in> set (getNeighboringCells (getCellKey (position (bodies s ! i)))))
       \<and> ((i, j) \<in> set (forcePairs (updateSpatialHash s)) \<or> (j, i) \<in> set (forcePairs (updateSpatialHash s)))"
proof -
  define key where "key k = getCellKey (position (bodies s ! k))" for k
  define h where "h = spatialHash (updateSpatialHash s)"
  have keys: "key j = key i \<or> key j \<in> set (getNeighboringCells (key i))"
    unfolding key_def using close by (rule keys_close)
  have bucket: "set (hash_get h c) = {k. k < length (bodies s) \<and> key k = c}" for c
    unfolding h_def key_def fresh_bucket by auto
  have occupied: "key i \<in> set (getNearbyCells (updateSpatialHash s))"
    unfolding fresh_keys key_def using i by auto
  have "(i, j) \<in> set (cellPairs h (key i)) \<or> (j, i) \<in> set (cellPairs h (key i))"
  proof (cases "key j = key i")
    case True
    then have "i \<in> set (hash_get h (key i))" "j \<in> set (hash_get h (key i))"
      using i j by (simp_all add: bucket)
    then show ?thesis
      using same_bucket_pair [OF _ _ ij] unfolding set_cellPairs by blast
  next
    case False
    then have "key j \<in> set (getNeighboringCells (key i))" using keys by simp
    moreover have "i \<in> set (hash_get h (key i))" "j \<in> set (hash_get h (key j))"
      using i j by (simp_all add: bucket)
    ultimately show ?thesis unfolding set_cellPairs by blast
  qed
  then have "(i, j) \<in> set (forcePairs (updateSpatialHash s)) \<or> (j, i) \<in> set (forcePairs (updateSpatialHash s))"
    unfolding set_forcePairs h_def using occupied by blast
  then show ?thesis using keys unfolding key_def by simp
qed

theorem close_pair_considered_witness:
  "0 < length (bodies across_cells) \<and> 1 < length (bodies across_cells) \<and> (0::nat) \<noteq> 1
   \<and> distance (position (bodies across_cells ! 0)) (position (bodies across_cells ! 1)) < hashCellSize
   \<and> (getCellKey (position (bodies across_cells ! 1)) = getCellKey (position (bodies across_cells ! 0))
        \<or> getCellKey (position (bodies across_cells ! 1))
            \<in> set (getNeighboringCells (getCellKey (position (bodies across_cells ! 0)))))
   \<and> ((0, 1) \<in> set (forcePairs (updateSpatialHash across_cells))
        \<or> (1, 0) \<in> set (forcePairs (updateSpatialHash across_cells)))"
proof -
  have len: "0 < length (bodies across_cells)" "1 < length (bodies across_cells)"
    by (simp_all add: across_cells_bodies)
  have close: "distance (position (bodies across_cells ! 0)) (position (bodies across_cells ! 1)) < hashCellSize"
    by (simp add: across_cells_bodies unit_body_def distance_def hashCellSize_def)
  have ne: "(0::nat) \<noteq> 1" by simp
  show ?thesis
    using close_pair_considered [OF len ne close] len close by simp
qed

section \<open>Coincident bodies\<close>

text \<open>
  C8. For two bodies at the same position \<open>calculateForceBetween\<close> returns at the softening
  test, before any division: the outcome is a state, not an anomaly, and it is the state
  it was given, so both accelerations are unchanged.
\<close>

theorem calculateForceBetween_same_position:
  "position (bodies s ! j) = position (bodies s ! i) \<Longrightarrow> calculateForceBetween i j s = Inr s"
  by (simp add: calculateForceBetween_def subtract_def magnitude_def softening_def Let_def)

theorem calculateForceBetween_same_position_witness:
  "position (bodies twins ! 1) = position (bodies twins ! 0) \<and> calculateForceBetween 0 1 twins = Inr twins"
proof -
  have same: "position (bodies twins ! 1) = position (bodies twins ! 0)"
    by (simp add: twins_def updateSpatialHash_def unit_body_def)
  show ?thesis
    using calculateForceBetween_same_position [OF same] same by simp
qed

section \<open>Energy and angular momentum\<close>

lemma gravitationalPotentialEnergy_value:
  "gravitationalPotentialEnergy m1 m2 r1 r2 = (if distance r1 r2 = 0 then Num 0 else NaN)"
  by (simp add: gravitationalPotentialEnergy_def MathUtils_G_def Let_def)






lemma figure8_built:
  "map_sum id bodies
     (run [AddBody 1 \<lparr>vec_x = - 1, vec_y = 0, vec_z = 0\<rparr> \<lparr>vec_x = 0, vec_y = 0.5, vec_z = 0\<rparr> (Some ''#4ecdc4'') ''body'' 0,
           AddBody 1 \<lparr>vec_x = 1, vec_y = 0, vec_z = 0\<rparr> \<lparr>vec_x = 0, vec_y = - 0.5, vec_z = 0\<rparr> (Some ''#8b5cf6'') ''body'' 0,
           AddBody 1 \<lparr>vec_x = 0, vec_y = 0, vec_z = 0\<rparr> \<lparr>vec_x = 0, vec_y = 0, vec_z = 0\<rparr> (Some ''#f97316'') ''body'' 0]
        constructor)
   = Inr figure8"
  by (simp add: addBody_def andThen_def constructor_def maxBodies_def calculateRadius_def
      updateSpatialHash_def Let_def figure8_def figure8_body1_def figure8_body2_def figure8_body3_def
      unit_body_def zero_vec_def)

text \<open>
  Two bodies at different positions make the energy NaN: their potential term is
  \<open>-undefined * m1 * m2 / d\<close>, and NaN stays in the sum.
\<close>

lemma fold_NaN_acc: "fold (\<lambda>x acc. js_plus acc (g x)) xs NaN = NaN"
  by (induction xs) simp_all

lemma fold_NaN_term:
  "x \<in> set xs \<Longrightarrow> g x = NaN \<Longrightarrow> fold (\<lambda>x acc. js_plus acc (g x)) xs a = NaN"
proof (induction xs arbitrary: a)
  case Nil
  then show ?case by simp
next
  case (Cons y ys)
  show ?case
  proof (cases "g y = NaN")
    case True
    then have "js_plus a (g y) = NaN" by (cases a) simp_all
    then show ?thesis by (simp add: fold_NaN_acc)
  next
    case False
    then have "x \<in> set ys" using Cons.prems by auto
    then show ?thesis using Cons.IH Cons.prems(2) by simp
  qed
qed

lemma fold_NaN_step:
  assumes "\<And>i. h i NaN = NaN" and "i \<in> set is" and "\<And>acc. h i acc = NaN"
  shows "fold h is a = NaN"
proof -
  have stay: "fold h js NaN = NaN" for js
    by (induction js) (simp_all add: assms(1))
  from assms(2) show ?thesis
  proof (induction "is" arbitrary: a)
    case Nil
    then show ?case by simp
  next
    case (Cons k ks)
    show ?case
    proof (cases "k = i")
      case True
      then show ?thesis by (simp add: assms(3) stay)
    next
      case False
      then have "i \<in> set ks" using Cons.prems by auto
      then show ?thesis using Cons.IH by simp
    qed
  qed
qed

lemma distance_zero_iff: "distance p q = 0 \<longleftrightarrow> p = q"
proof -
  have "distance p q = magnitude (subtract p q)"
    by (simp add: distance_def magnitude_def subtract_def Let_def)
  then show ?thesis by (simp add: magnitude_zero_iff subtract_zero_iff)
qed

lemma totalEnergy_NaN:
  assumes ij: "i < j" and j: "j < length bs" and apart: "position (bs ! i) \<noteq> position (bs ! j)"
  shows "totalEnergy bs = NaN"
  unfolding totalEnergy_def Let_def
proof (rule fold_NaN_step [where i = i])
  show "i \<in> set [0 ..< length bs]" using ij j by simp
next
  fix k
  show "fold (\<lambda>j acc'. js_plus acc' (gravitationalPotentialEnergy (mass (bs ! k)) (mass (bs ! j))
                           (position (bs ! k)) (position (bs ! j)))) [k + 1 ..< length bs] NaN = NaN"
    by (rule fold_NaN_acc)
next
  fix acc
  have "gravitationalPotentialEnergy (mass (bs ! i)) (mass (bs ! j)) (position (bs ! i)) (position (bs ! j)) = NaN"
    using apart by (simp add: gravitationalPotentialEnergy_value distance_zero_iff)
  moreover have "j \<in> set [i + 1 ..< length bs]" using ij j by simp
  ultimately show "fold (\<lambda>j acc'. js_plus acc' (gravitationalPotentialEnergy (mass (bs ! i)) (mass (bs ! j))
                           (position (bs ! i)) (position (bs ! j)))) [i + 1 ..< length bs] acc = NaN"
    by (rule fold_NaN_term [rotated])
qed

text \<open>
  With masses that are not negative the energy is NaN or a number that is not negative
  (kinetic terms only), so this is all the baseline can be.
\<close>

lemma js_plus_nonneg:
  "numericNonNegOrNaN a \<Longrightarrow> numericNonNegOrNaN b \<Longrightarrow> numericNonNegOrNaN (js_plus a b)"
  by (cases a; cases b) (simp_all add: numericNonNegOrNaN_def)

lemma fold_nonneg:
  assumes "\<And>x acc. x \<in> set xs \<Longrightarrow> numericNonNegOrNaN acc \<Longrightarrow> numericNonNegOrNaN (h x acc)"
    and "numericNonNegOrNaN a"
  shows "numericNonNegOrNaN (fold h xs a)"
  using assms by (induction xs arbitrary: a) simp_all

lemma kineticEnergy_nonneg: "0 \<le> m \<Longrightarrow> 0 \<le> kineticEnergy m v"
  by (simp add: kineticEnergy_def Let_def mult.assoc)

lemma potential_nonneg: "numericNonNegOrNaN (gravitationalPotentialEnergy m1 m2 r1 r2)"
  by (simp add: gravitationalPotentialEnergy_value numericNonNegOrNaN_def)

lemma totalEnergy_never_negative:
  assumes "\<And>b. b \<in> set bs \<Longrightarrow> 0 \<le> mass b"
  shows "numericNonNegOrNaN (totalEnergy bs)"
  unfolding totalEnergy_def Let_def
proof (rule fold_nonneg)
  show "numericNonNegOrNaN (fold (\<lambda>b acc. js_plus acc (Num (kineticEnergy (mass b) (velocity b)))) bs (Num 0))"
  proof (rule fold_nonneg)
    fix b acc assume "b \<in> set bs" "numericNonNegOrNaN acc"
    then show "numericNonNegOrNaN (js_plus acc (Num (kineticEnergy (mass b) (velocity b))))"
      using assms by (intro js_plus_nonneg) (simp_all add: numericNonNegOrNaN_def kineticEnergy_nonneg)
  qed (simp add: numericNonNegOrNaN_def)
next
  fix i acc assume "numericNonNegOrNaN acc"
  then show "numericNonNegOrNaN
      (fold (\<lambda>j acc'. js_plus acc' (gravitationalPotentialEnergy (mass (bs ! i)) (mass (bs ! j))
                           (position (bs ! i)) (position (bs ! j)))) [i + 1 ..< length bs] acc)"
    by (intro fold_nonneg js_plus_nonneg potential_nonneg)
qed


text \<open>
  What the formula of \<open>trackEnergyConservation\<close> gives when baseline and energy are
  numbers and the baseline is negative.
\<close>

lemma energyError_numeric:
  assumes "initialEnergy s = Num e0" "e0 < 0" "totalEnergy (bodies s) = Num e"
  shows "energyError (stats (trackEnergyConservation s)) = Num (\<bar>e - e0\<bar> / e0) \<and> \<bar>e - e0\<bar> / e0 \<le> 0"
  using assms by (simp add: trackEnergyConservation_def energyConservation_def Let_def divide_nonneg_neg)



text \<open>Two ticks of the bound pair: the first records the baseline, the second the error.\<close>

lemma at_rest_two_ticks:
  "map_sum id (\<lambda>s. (initialEnergy s, energyError (stats s)))
     (andThen (update now 1 (setIntegrationMethod ''euler'' at_rest)) (update now' 1))
   = Inr (NaN, NaN)"
  by (simp add: update_def setIntegrationMethod_def integrate_def updateEuler_def at_rest_bodies
       Let_def andThen_def updateTrails_def updateSpatialHash_def trackEnergyConservation_def
       energyConservation_def totalEnergy_def kineticEnergy_def gravitationalPotentialEnergy_value
       distance_x_axis magnitude_def at_rest_def constructor_def unit_body_def zero_vec_def add_def
       multiply_def)


end
